theory Spec2Isabelle
  imports Main
begin

section \<open>Text\<close>

text \<open>
  A Python \<^verbatim>\<open>str\<close> is a sequence of Unicode code points; a code point is a natural
  number. \<open>str\<close> turns an ASCII literal into such a sequence; the backslash, the quote
  and the line break are spliced in by number (\<open>bsl\<close>, 39, 10).
\<close>

type_synonym pystr = "nat list"

definition str :: "string \<Rightarrow> pystr" where
  "str s = map of_char s"

definition bsl :: "string \<Rightarrow> pystr" where
  "bsl s = 92 # str s"

definition nl :: pystr where
  "nl = [10]"

text \<open>\<^verbatim>\<open>str.isspace\<close>, which is also the class \<^verbatim>\<open>\s\<close> of a Unicode pattern.\<close>

definition py_isspace :: "nat \<Rightarrow> bool" where
  "py_isspace c \<longleftrightarrow> (9 \<le> c \<and> c \<le> 13) \<or> (28 \<le> c \<and> c \<le> 32) \<or> c = 133 \<or> c = 160
     \<or> c = 5760 \<or> (8192 \<le> c \<and> c \<le> 8202) \<or> c = 8232 \<or> c = 8233 \<or> c = 8239
     \<or> c = 8287 \<or> c = 12288"

text \<open>
  The class \<^verbatim>\<open>\w\<close> (alphanumeric or underscore). Below U+0080 it is written out; above,
  it is the alphanumeric property of the Unicode database, taken as the parameter \<open>U\<close>.
  The four letters U+0130, U+0131, U+017F and U+212A are alphanumeric.
\<close>

definition py_isword :: "(nat \<Rightarrow> bool) \<Rightarrow> nat \<Rightarrow> bool" where
  "py_isword U c \<longleftrightarrow>
     (if c < 128 then (48 \<le> c \<and> c \<le> 57) \<or> (65 \<le> c \<and> c \<le> 90) \<or> c = 95 \<or> (97 \<le> c \<and> c \<le> 122)
      else c = 304 \<or> c = 305 \<or> c = 383 \<or> c = 8490 \<or> U c)"

text \<open>
  The code points that a letter of a pattern matches under \<^verbatim>\<open>(?i)\<close>: both cases of an
  ASCII letter, and the non-ASCII letters whose lower case (or case equivalent) it is.
\<close>

definition ci_forms :: "nat \<Rightarrow> nat list" where
  "ci_forms a =
     (if 65 \<le> a \<and> a \<le> 90 then [a, a + 32] else if 97 \<le> a \<and> a \<le> 122 then [a - 32, a] else [a])
     @ (if a = 73 \<or> a = 105 then [304, 305] else if a = 83 \<or> a = 115 then [383]
        else if a = 75 \<or> a = 107 then [8490] else [])"

text \<open>\<^verbatim>\<open>sub in s\<close>, \<^verbatim>\<open>s.replace(old, new)\<close> for a non-empty \<^verbatim>\<open>old\<close>, \<^verbatim>\<open>s.strip()\<close>,
  \<^verbatim>\<open>s.split()\<close> and \<^verbatim>\<open>sep.join(xs)\<close>.\<close>

fun contains :: "pystr \<Rightarrow> pystr \<Rightarrow> bool" where
  "contains sub [] = (sub = [])"
| "contains sub (x # xs) = (take (length sub) (x # xs) = sub \<or> contains sub xs)"

function replace :: "pystr \<Rightarrow> pystr \<Rightarrow> pystr \<Rightarrow> pystr" where
  "replace old new s =
     (if old = [] \<or> s = [] then s
      else if take (length old) s = old then new @ replace old new (drop (length old) s)
      else hd s # replace old new (tl s))"
  by pat_completeness auto
termination
  by (relation "measure (\<lambda>(old, new, s). length s)") (auto simp: neq_Nil_conv)

declare replace.simps [simp del]

definition strip :: "pystr \<Rightarrow> pystr" where
  "strip s = rev (dropWhile py_isspace (rev (dropWhile py_isspace s)))"

function split :: "pystr \<Rightarrow> pystr list" where
  "split s =
     (let r = dropWhile py_isspace s
      in if r = [] then []
         else takeWhile (\<lambda>c. \<not> py_isspace c) r # split (dropWhile (\<lambda>c. \<not> py_isspace c) r))"
  by pat_completeness auto
termination
proof (relation "measure length", goal_cases)
  case 1
  show ?case by simp
next
  case (2 s r)
  then obtain x xs where r: "dropWhile py_isspace s = x # xs"
    by (cases "dropWhile py_isspace s") auto
  have a: "length (dropWhile (\<lambda>c. \<not> py_isspace c) xs) \<le> length xs"
    by (rule length_dropWhile_le)
  have "length (dropWhile py_isspace s) \<le> length s"
    by (rule length_dropWhile_le)
  then have b: "Suc (length xs) \<le> length s"
    using r by simp
  have "\<not> py_isspace x"
    using r hd_dropWhile [of py_isspace s] by (metis list.sel(1) list.simps(3))
  then have "dropWhile (\<lambda>c. \<not> py_isspace c) (x # xs) = dropWhile (\<lambda>c. \<not> py_isspace c) xs"
    by simp
  then show ?case
    using a b r 2 by simp
qed

declare split.simps [simp del]

fun join :: "pystr \<Rightarrow> pystr list \<Rightarrow> pystr" where
  "join sep [] = []"
| "join sep [x] = x"
| "join sep (x # y # ys) = x @ sep @ join sep (y # ys)"

section \<open>Regular expressions\<close>

text \<open>
  The patterns of the program use single characters and character classes, repetition
  of one of those (greedy or lazy, with a lower bound), groups, \<^verbatim>\<open>^\<close>, \<^verbatim>\<open>\b\<close> (which
  carries the class of word characters) and a lookahead with alternatives. A pattern is
  a sequence of such items, a group being the items between \<open>Open\<close> and \<open>Close\<close>.
\<close>

datatype cset = Ch nat | Rng nat nat | WSp

datatype atom = Lit nat | LitI nat | In "cset list" | NotIn "cset list" | Dot | DotAll

datatype rx = Atom atom | Rep atom nat | RepLazy atom nat | Open nat | Close nat | Bol
  | WordB "nat \<Rightarrow> bool" | Ahead "rx list list"

text \<open>The group \<^verbatim>\<open>(...)\<close> numbered \<open>g\<close>.\<close>

definition group :: "nat \<Rightarrow> rx list \<Rightarrow> rx list" where
  "group g body = Open g # body @ [Close g]"

fun in_cset :: "cset \<Rightarrow> nat \<Rightarrow> bool" where
  "in_cset (Ch a) c = (c = a)"
| "in_cset (Rng a b) c = (a \<le> c \<and> c \<le> b)"
| "in_cset WSp c = py_isspace c"

fun atom_ok :: "atom \<Rightarrow> nat \<Rightarrow> bool" where
  "atom_ok (Lit a) c = (c = a)"
| "atom_ok (LitI a) c = (c \<in> set (ci_forms a))"
| "atom_ok (In cs) c = list_ex (\<lambda>s. in_cset s c) cs"
| "atom_ok (NotIn cs) c = (\<not> list_ex (\<lambda>s. in_cset s c) cs)"
| "atom_ok Dot c = (c \<noteq> 10)"
| "atom_ok DotAll c = True"

text \<open>
  The state of the matcher: the character before the current position (\<open>None\<close> at the
  start of the text), the text from the current position on, the groups that are open,
  each with the text read since it was opened, and the groups that are closed, each
  with its text. The text of a group is kept last character first, and turned round
  when the group is read. Group 0 is the whole match.
\<close>

type_synonym caps = "nat \<Rightarrow> pystr option"

datatype mstate = St "nat option" pystr "(nat \<times> pystr) list" caps

definition push :: "nat \<Rightarrow> (nat \<times> pystr) list \<Rightarrow> (nat \<times> pystr) list" where
  "push x opened = map (\<lambda>(g, acc). (g, x # acc)) opened"

definition is_word_at :: "(nat \<Rightarrow> bool) \<Rightarrow> nat option \<Rightarrow> bool" where
  "is_word_at W x = (case x of None \<Rightarrow> False | Some a \<Rightarrow> W a)"

definition first_of :: "pystr \<Rightarrow> nat option" where
  "first_of rest = (case rest of [] \<Rightarrow> None | x # xs \<Rightarrow> Some x)"

text \<open>
  \<open>first p st\<close> is the first way in which a backtracking matcher matches the pattern
  \<open>p\<close> from the state \<open>st\<close>, as the state it ends in. A greedy repetition reads as many
  characters as it can and gives them back one by one; a lazy one reads one more
  character only when the rest of the pattern fails.
\<close>

function first :: "rx list \<Rightarrow> mstate \<Rightarrow> mstate option" where
  "first [] st = Some st"
| "first (Atom a # rs) (St prev [] opened c) = None"
| "first (Atom a # rs) (St prev (x # xs) opened c) =
     (if atom_ok a x then first rs (St (Some x) xs (push x opened) c) else None)"
| "first (Rep a n # rs) (St prev [] opened c) =
     (if n = 0 then first rs (St prev [] opened c) else None)"
| "first (Rep a n # rs) (St prev (x # xs) opened c) =
     (if atom_ok a x
      then (case first (Rep a (n - 1) # rs) (St (Some x) xs (push x opened) c) of
              Some st \<Rightarrow> Some st
            | None \<Rightarrow> if n = 0 then first rs (St prev (x # xs) opened c) else None)
      else if n = 0 then first rs (St prev (x # xs) opened c) else None)"
| "first (RepLazy a n # rs) (St prev [] opened c) =
     (if n = 0 then first rs (St prev [] opened c) else None)"
| "first (RepLazy a n # rs) (St prev (x # xs) opened c) =
     (if n = 0
      then (case first rs (St prev (x # xs) opened c) of
              Some st \<Rightarrow> Some st
            | None \<Rightarrow> if atom_ok a x
                      then first (RepLazy a 0 # rs) (St (Some x) xs (push x opened) c)
                      else None)
      else if atom_ok a x
           then first (RepLazy a (n - 1) # rs) (St (Some x) xs (push x opened) c)
           else None)"
| "first (Open g # rs) (St prev rest opened c) = first rs (St prev rest ((g, []) # opened) c)"
| "first (Close g # rs) (St prev rest opened c) =
     first rs (St prev rest (filter (\<lambda>(j, acc). j \<noteq> g) opened) (c(g := map_of opened g)))"
| "first (Bol # rs) (St prev rest opened c) =
     (if prev = None then first rs (St prev rest opened c) else None)"
| "first (WordB W # rs) (St prev rest opened c) =
     (if is_word_at W prev \<noteq> is_word_at W (first_of rest)
      then first rs (St prev rest opened c) else None)"
| "first (Ahead alts # rs) (St prev rest opened c) =
     (if list_ex (\<lambda>alt. first alt (St prev rest opened c) \<noteq> None) alts
      then first rs (St prev rest opened c) else None)"
  by pat_completeness auto
termination
  apply (relation "measures [\<lambda>(p, st). size_list size p,
                             \<lambda>(p, st). case st of St prev rest opened c \<Rightarrow> length rest]")
  apply (auto simp: less_Suc_eq_le)
  subgoal for alts rs x
    using size_list_estimation' [of x alts "size_list size x" "size_list size"] by simp
  done

text \<open>A match found in a text: the text skipped before it, the text matched, the text
  after it and the groups.\<close>

type_synonym found = "pystr \<times> pystr \<times> pystr \<times> caps"

definition no_caps :: caps where
  "no_caps = (\<lambda>_. None)"

text \<open>\<^verbatim>\<open>re.match\<close> at a position: the pattern as group 0.\<close>

definition match_here :: "rx list \<Rightarrow> nat option \<Rightarrow> pystr \<Rightarrow> found option" where
  "match_here p prev t =
     (case first (group 0 p) (St prev t [] no_caps) of
        None \<Rightarrow> None
      | Some (St prev' rest opened c) \<Rightarrow>
          Some ([], (case c 0 of None \<Rightarrow> [] | Some m \<Rightarrow> rev m), rest, c))"

definition skip :: "nat \<Rightarrow> found \<Rightarrow> found" where
  "skip x m = (case m of (k, rest) \<Rightarrow> (x # k, rest))"

text \<open>The match at the leftmost position that has one.\<close>

fun search_from :: "rx list \<Rightarrow> nat option \<Rightarrow> pystr \<Rightarrow> found option" where
  "search_from p prev [] = match_here p prev []"
| "search_from p prev (x # xs) =
     (case match_here p prev (x # xs) of
        None \<Rightarrow> map_option (skip x) (search_from p (Some x) xs)
      | Some m \<Rightarrow> Some m)"

text \<open>\<^verbatim>\<open>re.search\<close>\<close>

definition search :: "rx list \<Rightarrow> pystr \<Rightarrow> found option" where
  "search p t = search_from p None t"

text \<open>\<^verbatim>\<open>m.group(g)\<close> and \<^verbatim>\<open>m.group(0)\<close>. Every group of the program's patterns takes part in
  every match.\<close>

definition grp :: "found \<Rightarrow> nat \<Rightarrow> pystr" where
  "grp m g =
     (case m of (k, matched, rest, c) \<Rightarrow> (case c g of None \<Rightarrow> [] | Some s \<Rightarrow> rev s))"

definition grp0 :: "found \<Rightarrow> pystr" where
  "grp0 m = (case m of (k, matched, rest, c) \<Rightarrow> matched)"

definition prev_after :: "nat option \<Rightarrow> pystr \<Rightarrow> nat option" where
  "prev_after prev consumed = (if consumed = [] then prev else Some (last consumed))"

text \<open>
  \<^verbatim>\<open>re.finditer\<close>: the matches from left to right, each search starting where the previous
  match ended. The patterns used with it start with a literal, so every match consumes
  text and the text left gets shorter.
\<close>

function finditer_from :: "rx list \<Rightarrow> nat option \<Rightarrow> pystr \<Rightarrow> found list" where
  "finditer_from p prev t =
     (case search_from p prev t of
        None \<Rightarrow> []
      | Some (k, m, s, c) \<Rightarrow>
          (k, m, s, c) # (if length s < length t then finditer_from p (prev_after prev (k @ m)) s
                          else []))"
  by pat_completeness auto
termination
  by (relation "measure (\<lambda>(p, prev, t). length t)") auto

declare finditer_from.simps [simp del]

definition finditer :: "rx list \<Rightarrow> pystr \<Rightarrow> found list" where
  "finditer p t = finditer_from p None t"

text \<open>\<^verbatim>\<open>re.sub(p, r'\1', t)\<close>: every match replaced by its first group, the text between
  the matches and after the last kept.\<close>

fun sub_g1_go :: "pystr \<Rightarrow> found list \<Rightarrow> pystr" where
  "sub_g1_go t [] = t"
| "sub_g1_go t [m] = (case m of (k, matched, rest, c) \<Rightarrow> k @ grp m 1 @ rest)"
| "sub_g1_go t (m # m' # ms) =
     (case m of (k, matched, rest, c) \<Rightarrow> k @ grp m 1 @ sub_g1_go rest (m' # ms))"

definition sub_g1 :: "rx list \<Rightarrow> pystr \<Rightarrow> pystr" where
  "sub_g1 p t = sub_g1_go t (finditer p t)"

definition lits :: "pystr \<Rightarrow> rx list" where
  "lits s = map (\<lambda>c. Atom (Lit c)) s"

definition litsI :: "pystr \<Rightarrow> rx list" where
  "litsI s = map (\<lambda>c. Atom (LitI c)) s"

section \<open>The Structure Analyzer\<close>

record resume_structure =
  sections :: "pystr list"
  has_bullet_points :: bool
  has_tables :: bool
  indentation_style :: pystr

definition common_sections :: "pystr list" where
  "common_sections = map str [''EXPERIENCE'', ''EDUCATION'', ''SKILLS'', ''PROJECTS'',
     ''CERTIFICATIONS'', ''SUMMARY'', ''OBJECTIVE'', ''CONTACT'', ''REFERENCES'',
     ''PUBLICATIONS'']"

text \<open>\<^verbatim>\<open>r'(?i)\b' + section + r'\b'\<close>\<close>

definition section_rx :: "(nat \<Rightarrow> bool) \<Rightarrow> pystr \<Rightarrow> rx list" where
  "section_rx U name = WordB (py_isword U) # litsI name @ [WordB (py_isword U)]"

text \<open>The twelve glyphs of \<^verbatim>\<open>r'[...]'\<close> at line 131, by code point.\<close>

definition bullet_rx :: "rx list" where
  "bullet_rx = [Atom (In (map Ch [8226, 9679, 9632, 9702, 9675, 9688, 9658, 9642, 9643,
     9656, 9657, 9670]))]"

text \<open>\<^verbatim>\<open>r'(.+)\n(.+)\n(.+)'\<close>\<close>

definition table_rx :: "rx list" where
  "table_rx = group 1 [Rep Dot 1] @ [Atom (Lit 10)] @ group 2 [Rep Dot 1] @ [Atom (Lit 10)]
     @ group 3 [Rep Dot 1]"

text \<open>\<^verbatim>\<open>r'\n\s{2,}'\<close> and \<^verbatim>\<open>r'\n\t'\<close>\<close>

definition indent_spaces_rx :: "rx list" where
  "indent_spaces_rx = [Atom (Lit 10), Rep (In [WSp]) 2]"

definition indent_tabs_rx :: "rx list" where
  "indent_tabs_rx = [Atom (Lit 10), Atom (Lit 9)]"

text \<open>
  \<^verbatim>\<open>re.findall\<close> at line 135 lists every match, and line 136 reads the first only, which
  is the match of \<open>search\<close>: its three groups, the number of words of each, and whether
  those three numbers take at most two values.
\<close>

definition table_like :: "pystr \<Rightarrow> bool" where
  "table_like text =
     (case search table_rx text of
        None \<Rightarrow> False
      | Some m \<Rightarrow> length (remdups (map (\<lambda>g. length (split (grp m g))) [1, 2, 3])) \<le> 2)"

definition analyze_resume_structure :: "(nat \<Rightarrow> bool) \<Rightarrow> pystr \<Rightarrow> resume_structure" where
  "analyze_resume_structure U text =
     \<lparr> sections = filter (\<lambda>section. search (section_rx U section) text \<noteq> None) common_sections,
       has_bullet_points = (search bullet_rx text \<noteq> None),
       has_tables = table_like text,
       indentation_style =
         (if search indent_spaces_rx text \<noteq> None then str ''spaces''
          else if search indent_tabs_rx text \<noteq> None then str ''tabs''
          else str ''unknown'') \<rparr>"

section \<open>The world of a run\<close>

text \<open>
  What the program reads and changes outside itself: directories and files, the
  environment, the PDF reader, the remote service, the LaTeX compiler and the console.
  The libraries and the compiler are not part of the program; their answers are fields
  of the world.
\<close>

datatype py_error = OSError | UnicodeDecodeError | UnicodeEncodeError | NameError pystr
  | LibraryError

datatype pdf_op =
    NewDocument pystr pystr pystr
  | AddPage
  | SetAutoPageBreak bool nat
  | SetMargins nat nat nat
  | SetFont pystr pystr nat
  | Cell nat nat pystr nat nat pystr
  | MultiCell nat nat pystr nat pystr
  | Ln nat
  | LineAtY nat nat

text \<open>
  A file holds the bytes it was found with, the text the program wrote to it (encoded
  as UTF-8), or the document the PDF library wrote.
\<close>

datatype fcontent = Bytes "nat list" | Text pystr | Pdf "pdf_op list"

text \<open>A console line: a text, or a text followed by the message of an exception.\<close>

datatype line = Say pystr | SayErr pystr py_error

type_synonym fsys = "pystr \<Rightarrow> fcontent option"

record world =
  dirs :: "pystr set"
  files :: fsys
  resume_pdfs :: "pystr list"
  may_mkdir :: bool
  writable :: "pystr \<Rightarrow> bool"
  environ :: "pystr \<Rightarrow> pystr option"
  pdf_pages :: "pystr \<Rightarrow> pystr list option"
  remote :: "pystr \<Rightarrow> pystr option"
  requests :: "pystr list"
  compiler :: "fsys \<Rightarrow> pystr \<Rightarrow> pystr \<Rightarrow> (py_error + int \<times> pystr) \<times> fsys"
  console :: "line list"

text \<open>
  \<open>resume_pdfs\<close> are the names that \<^verbatim>\<open>resume_folder.glob("*.pdf")\<close> lists, in its order;
  \<open>pdf_pages\<close> is what PyPDF2 extracts from a file, page by page (\<open>None\<close> when it
  raises); \<open>remote\<close> is the reply of the model to an instruction (\<open>None\<close> when the call
  raises) and \<open>requests\<close> the instructions sent; \<open>compiler\<close> is a run of \<^verbatim>\<open>pdflatex\<close>
  on a file system, an output directory and a file.
\<close>

definition say :: "world \<Rightarrow> pystr \<Rightarrow> world" where
  "say w s = w\<lparr>console := console w @ [Say s]\<rparr>"

definition say_err :: "world \<Rightarrow> pystr \<Rightarrow> py_error \<Rightarrow> world" where
  "say_err w s e = w\<lparr>console := console w @ [SayErr s e]\<rparr>"

definition path_exists :: "world \<Rightarrow> pystr \<Rightarrow> bool" where
  "path_exists w p \<longleftrightarrow> files w p \<noteq> None \<or> p \<in> dirs w"

text \<open>\<^verbatim>\<open>os.makedirs\<close>\<close>

definition makedirs :: "world \<Rightarrow> pystr \<Rightarrow> py_error + world" where
  "makedirs w p = (if may_mkdir w then Inr (w\<lparr>dirs := insert p (dirs w)\<rparr>) else Inl OSError)"

text \<open>The strict UTF-8 decoder: no overlong forms, no surrogates, nothing above
  U+10FFFF.\<close>

definition cont :: "nat \<Rightarrow> bool" where
  "cont b \<longleftrightarrow> 128 \<le> b \<and> b \<le> 191"

fun utf8_decode :: "nat list \<Rightarrow> pystr option" where
  "utf8_decode [] = Some []"
| "utf8_decode (b0 # bs) =
     (if b0 < 128 then map_option ((#) b0) (utf8_decode bs)
      else case bs of
        [] \<Rightarrow> None
      | b1 # bs1 \<Rightarrow>
          if 194 \<le> b0 \<and> b0 \<le> 223 then
            (if cont b1
             then map_option ((#) ((b0 - 192) * 64 + (b1 - 128))) (utf8_decode bs1)
             else None)
          else case bs1 of
            [] \<Rightarrow> None
          | b2 # bs2 \<Rightarrow>
              if 224 \<le> b0 \<and> b0 \<le> 239 then
                (if cont b1 \<and> cont b2 \<and> (224 < b0 \<or> 160 \<le> b1) \<and> (b0 < 237 \<or> 237 < b0 \<or> b1 \<le> 159)
                 then map_option ((#) ((b0 - 224) * 4096 + (b1 - 128) * 64 + (b2 - 128)))
                        (utf8_decode bs2)
                 else None)
              else case bs2 of
                [] \<Rightarrow> None
              | b3 # bs3 \<Rightarrow>
                  if 240 \<le> b0 \<and> b0 \<le> 244 \<and> cont b1 \<and> cont b2 \<and> cont b3
                     \<and> (240 < b0 \<or> 144 \<le> b1) \<and> (b0 < 244 \<or> b1 \<le> 143)
                  then map_option ((#) ((b0 - 240) * 262144 + (b1 - 128) * 4096
                                        + (b2 - 128) * 64 + (b3 - 128)))
                         (utf8_decode bs3)
                  else None)"

text \<open>Reading in text mode turns \<^verbatim>\<open>\r\n\<close> and \<^verbatim>\<open>\r\<close> into \<^verbatim>\<open>\n\<close>.\<close>

fun universal_newlines :: "pystr \<Rightarrow> pystr" where
  "universal_newlines [] = []"
| "universal_newlines [c] = [if c = 13 then 10 else c]"
| "universal_newlines (c # d # r) =
     (if c = 13 \<and> d = 10 then 10 # universal_newlines r
      else (if c = 13 then 10 else c) # universal_newlines (d # r))"

text \<open>\<^verbatim>\<open>open(p, "r", encoding="utf-8").read()\<close> and the same with \<^verbatim>\<open>latin-1\<close>, which
  decodes every byte.\<close>

definition read_text_utf8 :: "world \<Rightarrow> pystr \<Rightarrow> py_error + pystr" where
  "read_text_utf8 w p =
     (case files w p of
        None \<Rightarrow> Inl OSError
      | Some (Bytes bs) \<Rightarrow>
          (case utf8_decode bs of
             None \<Rightarrow> Inl UnicodeDecodeError
           | Some s \<Rightarrow> Inr (universal_newlines s))
      | Some (Text s) \<Rightarrow> Inr (universal_newlines s)
      | Some (Pdf ops) \<Rightarrow> Inl UnicodeDecodeError)"

definition read_text_latin1 :: "world \<Rightarrow> pystr \<Rightarrow> py_error + pystr" where
  "read_text_latin1 w p =
     (case files w p of
        Some (Bytes bs) \<Rightarrow> Inr (universal_newlines bs)
      | _ \<Rightarrow> Inl OSError)"

text \<open>
  \<^verbatim>\<open>open(p, "w", encoding="utf-8")\<close> and \<^verbatim>\<open>write(s)\<close>. Opening empties the file; a text
  with a surrogate cannot be encoded, and then nothing is written.
\<close>

definition utf8_encodable :: "pystr \<Rightarrow> bool" where
  "utf8_encodable s = list_all (\<lambda>c. c < 55296 \<or> (57343 < c \<and> c < 1114112)) s"

definition write_text :: "world \<Rightarrow> pystr \<Rightarrow> pystr \<Rightarrow> (py_error + unit) \<times> world" where
  "write_text w p s =
     (if \<not> writable w p then (Inl OSError, w)
      else if \<not> utf8_encodable s then (Inl UnicodeEncodeError, w\<lparr>files := (files w)(p \<mapsto> Text [])\<rparr>)
      else (Inr (), w\<lparr>files := (files w)(p \<mapsto> Text s)\<rparr>))"

section \<open>The Document Extractor\<close>

definition extract_from_pdf ::
  "(nat \<Rightarrow> bool) \<Rightarrow> world \<Rightarrow> pystr \<Rightarrow> (pystr \<times> resume_structure) option \<times> world" where
  "extract_from_pdf U w pdf_path =
     (case pdf_pages w pdf_path of
        None \<Rightarrow> (None, say_err w (str ''Error extracting text from PDF: '') LibraryError)
      | Some pages \<Rightarrow>
          (let text = foldl (\<lambda>text page. text @ page @ nl) [] pages;
               structure = analyze_resume_structure U text
           in (Some (text, structure), w)))"

section \<open>The Optimization Client and its instruction\<close>

text \<open>Lines 164 to 177: the leading name, the e-mail address, the LinkedIn and the
  GitHub link, each with its placeholder.\<close>

definition name_rx :: "rx list" where
  "name_rx = Bol # group 1 [Rep (In [Rng 65 90, Rng 97 122, WSp]) 1]"

definition leading_name :: "pystr \<Rightarrow> pystr" where
  "leading_name resume_text =
     (case search name_rx resume_text of
        None \<Rightarrow> str ''Name''
      | Some m \<Rightarrow> strip (grp m 1))"

definition alnum :: "cset list" where
  "alnum = [Rng 97 122, Rng 65 90, Rng 48 57]"

definition email_rx :: "rx list" where
  "email_rx = group 1 [Rep (In (alnum @ [Ch 95, Ch 46, Ch 43, Ch 45])) 1, Atom (Lit 64),
     Rep (In (alnum @ [Ch 45])) 1, Atom (Lit 46), Rep (In (alnum @ [Ch 45, Ch 46])) 1]"

definition find_email :: "pystr \<Rightarrow> pystr" where
  "find_email resume_text =
     (case search email_rx resume_text of
        None \<Rightarrow> str ''email@example.com''
      | Some m \<Rightarrow> grp m 1)"

definition linkedin_rx :: "rx list" where
  "linkedin_rx = lits (str ''linkedin.com/in/'') @ group 1 [Rep (In (alnum @ [Ch 95, Ch 45])) 1]"

definition github_rx :: "rx list" where
  "github_rx = lits (str ''github.com/'') @ group 1 [Rep (In (alnum @ [Ch 95, Ch 45])) 1]"

definition find_link :: "rx list \<Rightarrow> pystr \<Rightarrow> pystr \<Rightarrow> pystr" where
  "find_link p placeholder resume_text =
     (case search p resume_text of
        None \<Rightarrow> placeholder
      | Some m \<Rightarrow> grp0 m)"

text \<open>
  An f-string is a sequence of parts: text, a replacement field that names a variable,
  and a replacement field whose expression is already evaluated. The fields are
  evaluated from left to right; a name that is not bound raises \<^verbatim>\<open>NameError\<close>.
\<close>

datatype fpart = Txt pystr | Var pystr | Val pystr

fun fstring :: "(pystr \<Rightarrow> pystr option) \<Rightarrow> fpart list \<Rightarrow> py_error + pystr" where
  "fstring scope [] = Inr []"
| "fstring scope (Txt s # ps) =
     (case fstring scope ps of Inl e \<Rightarrow> Inl e | Inr r \<Rightarrow> Inr (s @ r))"
| "fstring scope (Val v # ps) =
     (case fstring scope ps of Inl e \<Rightarrow> Inl e | Inr r \<Rightarrow> Inr (v @ r))"
| "fstring scope (Var n # ps) =
     (case scope n of
        None \<Rightarrow> Inl (NameError n)
      | Some v \<Rightarrow> (case fstring scope ps of Inl e \<Rightarrow> Inl e | Inr r \<Rightarrow> Inr (v @ r)))"

definition yes_no :: "bool \<Rightarrow> pystr" where
  "yes_no b = (if b then str ''Yes'' else str ''No'')"

definition indent8 :: pystr where
  "indent8 = str ''        ''"

text \<open>
  The f-string of lines 179 to 324, as Python reads it. The prefix \<^verbatim>\<open>f\<close> makes every
  brace of the LaTeX template open a replacement field, and the string is not raw, so
  \<^verbatim>\<open>\b\<close> of \<^verbatim>\<open>\begin\<close> is the backspace U+0008. The first field after the seven that
  the instruction is meant to have is \<^verbatim>\<open>{document}\<close> of line 199, and no variable
  \<^verbatim>\<open>document\<close> is bound in the function, the module or the builtins. Evaluation ends
  there, so the parts that follow are not listed. (Further down, fields such as
  \<^verbatim>\<open>{tabular*}\<close> and the escape \<^verbatim>\<open>\u\<close> of \<^verbatim>\<open>\underline\<close> are not Python at all.)
\<close>

definition prompt_parts :: "resume_structure \<Rightarrow> pystr \<Rightarrow> fpart list" where
  "prompt_parts resume_structure sections_str =
     [Txt (nl @ indent8
           @ str ''I need to optimize a resume for this job description and convert it to LaTeX format.''
           @ nl @ nl @ indent8 @ str ''JOB DESCRIPTION:'' @ nl @ indent8),
      Var (str ''job_description''),
      Txt (nl @ nl @ indent8 @ str ''CURRENT RESUME CONTENT:'' @ nl @ indent8),
      Var (str ''resume_text''),
      Txt (nl @ nl @ indent8
           @ str ''ADDITIONAL DETAILS ABOUT THE PERSON (incorporate if relevant):'' @ nl @ indent8),
      Var (str ''additional_details''),
      Txt (nl @ nl @ indent8 @ str ''RESUME STRUCTURE ANALYSIS:'' @ nl @ indent8
           @ str ''- Sections detected: ''),
      Var (str ''sections_str''),
      Txt (nl @ indent8 @ str ''- Uses bullet points: ''),
      Val (yes_no (has_bullet_points resume_structure)),
      Txt (nl @ indent8 @ str ''- Contains tables: ''),
      Val (yes_no (has_tables resume_structure)),
      Txt (nl @ indent8 @ str ''- Indentation style: ''),
      Val (indentation_style resume_structure),
      Txt (nl @ nl @ indent8
           @ str ''Convert this resume to the following LaTeX format and structure:''
           @ nl @ nl @ [8] @ str ''egin''),
      Var (str ''document'')]"

text \<open>The string-valued variables bound where the f-string is evaluated.\<close>

definition prompt_scope ::
  "pystr \<Rightarrow> pystr \<Rightarrow> pystr \<Rightarrow> pystr \<Rightarrow> pystr \<Rightarrow> pystr \<Rightarrow> pystr option" where
  "prompt_scope api_key resume_text job_description additional_details sections_str =
     map_of
       [(str ''resume_text'', resume_text),
        (str ''job_description'', job_description),
        (str ''additional_details'', additional_details),
        (str ''api_key'', api_key),
        (str ''sections_str'', sections_str),
        (str ''name'', leading_name resume_text),
        (str ''email'', find_email resume_text),
        (str ''linkedin'', find_link linkedin_rx (str ''linkedin.com/in/username'') resume_text),
        (str ''github'', find_link github_rx (str ''github.com/username'') resume_text)]"

definition build_prompt ::
  "pystr \<Rightarrow> pystr \<Rightarrow> resume_structure \<Rightarrow> pystr \<Rightarrow> pystr \<Rightarrow> py_error + pystr" where
  "build_prompt api_key resume_text resume_structure job_description additional_details =
     (let sections_str = join (str '', '') (sections resume_structure)
      in fstring
           (prompt_scope api_key resume_text job_description additional_details sections_str)
           (prompt_parts resume_structure sections_str))"

definition GEMINI_API_KEY :: pystr where
  "GEMINI_API_KEY = str ''GEMINI_API_KEY''"

definition key_missing :: "world \<Rightarrow> pystr option \<times> world" where
  "key_missing w =
     (None, say (say w (str ''Error: GEMINI_API_KEY not found in environment variables.''))
                (str ''Please add your Gemini API key using the Secrets tool.''))"

definition optimize_resume_with_gemini ::
  "world \<Rightarrow> pystr \<Rightarrow> resume_structure \<Rightarrow> pystr \<Rightarrow> pystr \<Rightarrow> pystr option \<times> world" where
  "optimize_resume_with_gemini w resume_text resume_structure job_description additional_details =
     (case environ w GEMINI_API_KEY of
        None \<Rightarrow> key_missing w
      | Some api_key \<Rightarrow>
          if api_key = [] then key_missing w
          else
            (case build_prompt api_key resume_text resume_structure job_description
                    additional_details of
               Inl e \<Rightarrow> (None, say_err w (str ''Error with Google Gemini API: '') e)
             | Inr prompt \<Rightarrow>
                 (case remote w prompt of
                    None \<Rightarrow>
                      (None, say_err (w\<lparr>requests := requests w @ [prompt]\<rparr>)
                               (str ''Error with Google Gemini API: '') LibraryError)
                  | Some reply \<Rightarrow> (Some reply, w\<lparr>requests := requests w @ [prompt]\<rparr>))))"

section \<open>The Layout Renderer\<close>

text \<open>The patterns of lines 362 to 442. A field is \<^verbatim>\<open>{([^}]*)}\<close>.\<close>

definition not_brace :: atom where
  "not_brace = NotIn [Ch 125]"

definition field :: "nat \<Rightarrow> rx list" where
  "field g = Atom (Lit 123) # group g [Rep not_brace 0] @ [Atom (Lit 125)]"

definition doc_name_rx :: "rx list" where
  "doc_name_rx = lits (bsl ''textbf{'' @ bsl ''Huge '' @ bsl ''scshape '')
     @ group 1 [Rep not_brace 1] @ [Atom (Lit 125)]"

definition contact_rx :: "rx list" where
  "contact_rx = lits (bsl ''small '') @ group 1 [Rep (NotIn [Ch 10]) 1]"

definition href_rx :: "rx list" where
  "href_rx = lits (bsl ''href{'') @ [Rep not_brace 1] @ lits (str ''}{'' @ bsl ''underline{'')
     @ group 1 [Rep not_brace 1] @ lits (str ''}}'')"

definition section_pattern :: "rx list" where
  "section_pattern = lits (bsl ''section{'')
     @ group 1 [Rep not_brace 1] @ [Atom (Lit 125)] @ group 2 [RepLazy DotAll 0]
     @ [Ahead [lits (bsl ''section{''), lits (bsl ''end{document}'')]]"

definition subheading_pattern :: "rx list" where
  "subheading_pattern = lits (bsl ''resumeSubheading'') @ [Rep (In [WSp]) 0]
     @ field 1 @ field 2 @ field 3 @ field 4"

definition project_pattern :: "rx list" where
  "project_pattern = lits (bsl ''resumeProjectHeading'') @ [Rep (In [WSp]) 0]
     @ field 1 @ field 2"

definition textbf_rx :: "rx list" where
  "textbf_rx = lits (bsl ''textbf'') @ field 1"

definition emph_rx :: "rx list" where
  "emph_rx = lits (bsl ''emph'') @ field 1"

definition bullet_pattern :: "rx list" where
  "bullet_pattern = lits (bsl ''resumeItem'') @ field 1"

definition skills_pattern :: "rx list" where
  "skills_pattern = lits (bsl ''textbf'') @ field 1 @ lits (str ''{{: '')
     @ group 2 [Rep (NotIn [Ch 125, Ch 92]) 0] @ lits (str ''}}'')"

definition Arial :: pystr where
  "Arial = str ''Arial''"

definition page_setup :: "pdf_op list" where
  "page_setup = [NewDocument (str ''P'') (str ''mm'') (str ''A4''), AddPage,
     SetAutoPageBreak True 15, SetMargins 15 15 15]"

definition header_ops :: "pystr \<Rightarrow> pystr \<Rightarrow> pdf_op list" where
  "header_ops name contact =
     [SetFont Arial (str ''B'') 16, Cell 0 10 name 0 1 (str ''C''),
      SetFont Arial [] 10, Cell 0 6 contact 0 1 (str ''C''), Ln 4]"

definition subheading_ops :: "found \<Rightarrow> pdf_op list" where
  "subheading_ops m =
     (let org = grp m 1; location = grp m 2;
          title = grp m 3; date = grp m 4
      in [SetFont Arial (str ''B'') 11,
          Cell 120 6 org 0 0 (str ''L''), Cell 60 6 location 0 1 (str ''R''),
          SetFont Arial (str ''I'') 10,
          Cell 120 6 title 0 0 (str ''L''), Cell 60 6 date 0 1 (str ''R''), Ln 2])"

definition project_ops :: "found \<Rightarrow> pdf_op list" where
  "project_ops m =
     (let project_info = sub_g1 emph_rx (sub_g1 textbf_rx (grp m 1));
          project_date = grp m 2
      in [SetFont Arial (str ''B'') 11,
          Cell 120 6 project_info 0 0 (str ''L''), Cell 60 6 project_date 0 1 (str ''R''),
          Ln 2])"

text \<open>The bullet glyph of line 437 is U+2022.\<close>

definition bullet_ops :: "found \<Rightarrow> pdf_op list" where
  "bullet_ops m =
     [SetFont Arial [] 10, Cell 5 6 [8226] 0 0 (str ''L''),
      MultiCell 175 6 (grp m 1) 0 (str ''L'')]"

definition skills_ops :: "found \<Rightarrow> pdf_op list" where
  "skills_ops m =
     [SetFont Arial (str ''B'') 10,
      Cell 30 6 (grp m 1 @ str '':'') 0 0 (str ''L''),
      SetFont Arial [] 10,
      MultiCell 150 6 (grp m 2) 0 (str ''L'')]"

definition section_ops :: "found \<Rightarrow> pdf_op list" where
  "section_ops m =
     (let section_title = grp m 1; section_content = grp m 2
      in [SetFont Arial (str ''B'') 14, Cell 0 10 section_title 0 1 (str ''L''), Ln 1,
          LineAtY 15 195, Ln 4]
         @ concat (map subheading_ops
                     (finditer subheading_pattern section_content))
         @ concat (map project_ops
                     (finditer project_pattern section_content))
         @ concat (map bullet_ops
                     (finditer bullet_pattern section_content))
         @ (if section_title = str ''Technical Skills''
            then concat (map skills_ops
                           (finditer skills_pattern section_content))
            else [])
         @ [Ln 5])"

definition doc_name :: "pystr \<Rightarrow> pystr" where
  "doc_name content =
     (case search doc_name_rx content of None \<Rightarrow> str ''Name'' | Some m \<Rightarrow> grp m 1)"

definition doc_contact :: "pystr \<Rightarrow> pystr" where
  "doc_contact content =
     (let contact = (case search contact_rx content of None \<Rightarrow> [] | Some m \<Rightarrow> grp m 1)
      in replace (str ''$|$'') (str ''|'') (sub_g1 href_rx contact))"

text \<open>The drawing calls of lines 349 to 452, in order.\<close>

definition render :: "pystr \<Rightarrow> pdf_op list" where
  "render content =
     page_setup @ header_ops (doc_name content) (doc_contact content)
     @ concat (map section_ops (finditer section_pattern content))"

text \<open>
  The PDF library is not part of the program. Its font Arial is a core font: its text is
  encoded as Latin-1, and a character above U+00FF makes the library raise (an encoding
  error, when the cell is drawn or when the document is written, by version). In both
  cases the exception is raised before anything is written to the output file.
\<close>

fun op_text :: "pdf_op \<Rightarrow> pystr" where
  "op_text (Cell w h txt border ln align) = txt"
| "op_text (MultiCell w h txt border align) = txt"
| "op_text _ = []"

definition latin1 :: "pystr \<Rightarrow> bool" where
  "latin1 s = list_all (\<lambda>c. c < 256) s"

definition pdf_output :: "world \<Rightarrow> pdf_op list \<Rightarrow> pystr \<Rightarrow> (py_error + unit) \<times> world" where
  "pdf_output w ops p =
     (if \<not> list_all (\<lambda>op. latin1 (op_text op)) ops then (Inl UnicodeEncodeError, w)
      else if \<not> writable w p then (Inl OSError, w)
      else (Inr (), w\<lparr>files := (files w)(p \<mapsto> Pdf ops)\<rparr>))"

text \<open>The body of the \<^verbatim>\<open>try\<close> of lines 341 to 456, and the function with its handler.\<close>

definition create_pdf_resume_body :: "world \<Rightarrow> pystr \<Rightarrow> pystr \<Rightarrow> (py_error + pystr) \<times> world" where
  "create_pdf_resume_body w content output_path =
     (case (if \<not> contains (str ''.tex'') output_path
            then write_text w (replace (str ''.pdf'') (str ''.tex'') output_path) content
            else (Inr (), w)) of
        (Inl e, w1) \<Rightarrow> (Inl e, w1)
      | (Inr _, w1) \<Rightarrow>
          (case pdf_output w1 (render content) output_path of
             (Inl e, w2) \<Rightarrow> (Inl e, w2)
           | (Inr _, w2) \<Rightarrow> (Inr output_path, w2)))"

definition create_pdf_resume :: "world \<Rightarrow> pystr \<Rightarrow> pystr \<Rightarrow> pystr option \<times> world" where
  "create_pdf_resume w content output_path =
     (case create_pdf_resume_body w content output_path of
        (Inl e, w1) \<Rightarrow> (None, say_err w1 (str ''Error creating PDF: '') e)
      | (Inr p, w1) \<Rightarrow> (Some p, w1))"

section \<open>The Orchestrator\<close>

text \<open>\<^verbatim>\<open>Path.stem\<close>: the name without its last suffix.\<close>

definition path_stem :: "pystr \<Rightarrow> pystr" where
  "path_stem name =
     (let k = length (takeWhile (\<lambda>c. c \<noteq> 46) (rev name))
      in if k < length name \<and> 0 < k \<and> 0 < length name - k - 1
         then take (length name - k - 1) name else name)"

definition quoted :: "string \<Rightarrow> pystr" where
  "quoted s = 39 # str s @ [39]"

definition lines_36_51 :: "world \<Rightarrow> py_error + pystr \<times> world" where
  "lines_36_51 w =
     (let p = str ''additional_details.txt'' in
      if path_exists w p then
        (case read_text_utf8 w p of
           Inr s \<Rightarrow> Inr (s, say w (str ''Found additional details file. This information will be incorporated into the resume.''))
         | Inl UnicodeDecodeError \<Rightarrow>
             (case read_text_latin1 w p of
                Inr s \<Rightarrow> Inr (s, say w (str ''Found additional details file (using alternate encoding). This information will be incorporated into the resume.''))
              | Inl e \<Rightarrow> Inl e)
         | Inl e \<Rightarrow> Inl e)
      else Inr ([], say w (str ''No '' @ quoted ''additional_details.txt''
                            @ str '' file found. Only using existing resume content.'')))"

text \<open>
  The result of a run of \<open>main\<close>: the exception that leaves it, if one does, and the
  world it leaves. An exception that leaves \<open>main\<close> ends the process with status 1.
\<close>

definition lines_69_94 :: "world \<Rightarrow> pystr \<Rightarrow> pystr \<Rightarrow> py_error option \<times> world" where
  "lines_69_94 w resume_name optimized_resume =
     (let out = str ''newresume/optimized_'' @ path_stem resume_name;
          tex_path = out @ str ''.tex''
      in case write_text w tex_path optimized_resume of
           (Inl e, w1) \<Rightarrow> (Some e, w1)
         | (Inr _, w1) \<Rightarrow>
             (let w2 = say (say w1 (str ''Optimized resume saved to: '' @ tex_path))
                         (str ''Resume optimization complete!'');
                  r = create_pdf_resume w2 optimized_resume (out @ str ''.pdf'');
                  w3 = say (snd r) (str ''PDF preview created at: ''
                                    @ (case fst r of None \<Rightarrow> str ''None'' | Some p \<Rightarrow> p));
                  w4 = say w3 (str ''Attempting to compile LaTeX file to PDF...'');
                  c = compiler w4 (files w4) (str ''newresume'') tex_path;
                  w5 = w4\<lparr>files := snd c\<rparr>
              in case fst c of
                   Inl e \<Rightarrow>
                     (None, say (say_err w5 (str ''Could not compile LaTeX: '') e)
                              (str ''Using basic PDF version instead.''))
                 | Inr (returncode, stderr) \<Rightarrow>
                     if returncode = 0
                     then (None, say w5 (str ''LaTeX compilation successful. PDF created at: ''
                                         @ out @ str ''.pdf''))
                     else (None, say (say w5 (str ''LaTeX compilation had issues. Using basic PDF version instead.''))
                                   (str ''Error details: '' @ stderr))))"

definition lines_53_94 :: "(nat \<Rightarrow> bool) \<Rightarrow> world \<Rightarrow> pystr \<Rightarrow> pystr \<Rightarrow> py_error option \<times> world" where
  "lines_53_94 U w resume_name additional_details =
     (case extract_from_pdf U w (str ''resume/'' @ resume_name) of
        (None, w1) \<Rightarrow> (None, say w1 (str ''Failed to extract text from the resume.''))
      | (Some (resume_text, resume_structure), w1) \<Rightarrow>
          if resume_text = [] then (None, say w1 (str ''Failed to extract text from the resume.''))
          else
            (case read_text_utf8 w1 (str ''job_description.txt'') of
               Inl e \<Rightarrow> (Some e, w1)
             | Inr job_description \<Rightarrow>
                 (case optimize_resume_with_gemini w1 resume_text resume_structure
                         job_description additional_details of
                    (None, w2) \<Rightarrow> (None, say w2 (str ''Failed to optimize the resume.''))
                  | (Some optimized_resume, w2) \<Rightarrow>
                      if optimized_resume = []
                      then (None, say w2 (str ''Failed to optimize the resume.''))
                      else lines_69_94 w2 resume_name optimized_resume)))"

definition main :: "(nat \<Rightarrow> bool) \<Rightarrow> world \<Rightarrow> py_error option \<times> world" where
  "main U w =
     (if \<not> path_exists w (str ''resume'') then
        (case makedirs w (str ''resume'') of
           Inl e \<Rightarrow> (Some e, w)
         | Inr w1 \<Rightarrow> (None, say w1 (str ''Created '' @ quoted ''resume''
                                      @ str '' folder. Please place your resume PDF there.'')))
      else
        (case (if \<not> path_exists w (str ''newresume'') then makedirs w (str ''newresume'')
               else Inr w) of
           Inl e \<Rightarrow> (Some e, w)
         | Inr w1 \<Rightarrow>
             (case resume_pdfs w1 of
                [] \<Rightarrow> (None, say w1 (str ''No PDF resume found in the '' @ quoted ''resume''
                                     @ str '' folder. Please add a resume.''))
              | resume_name # _ \<Rightarrow>
                  (let w2 = say w1 (str ''Found resume: '' @ resume_name) in
                   if \<not> path_exists w2 (str ''job_description.txt'')
                   then (None, say w2 (str ''Job description file '' @ quoted ''job_description.txt''
                                       @ str '' not found. Please create this file with the job requirements.''))
                   else
                     (case lines_36_51 w2 of
                        Inl e \<Rightarrow> (Some e, w2)
                      | Inr (additional_details, w3) \<Rightarrow>
                          lines_53_94 U w3 resume_name additional_details)))))"

definition exit_status :: "py_error option \<times> world \<Rightarrow> nat" where
  "exit_status r = (case fst r of None \<Rightarrow> 0 | Some e \<Rightarrow> 1)"

section \<open>The claims in the words of the specification\<close>

text \<open>
  A section name occurs in a text as a case-insensitive whole word: the text is
  \<open>pre @ w @ post\<close>, where \<open>w\<close> is the name up to the case of its letters, \<open>pre\<close> does
  not end in a word character and \<open>post\<close> does not start with one.
\<close>

definition same_letters :: "pystr \<Rightarrow> pystr \<Rightarrow> bool" where
  "same_letters name w = list_all2 (\<lambda>a c. c \<in> set (ci_forms a)) name w"

definition whole_word_ci :: "(nat \<Rightarrow> bool) \<Rightarrow> pystr \<Rightarrow> pystr \<Rightarrow> bool" where
  "whole_word_ci U name t \<longleftrightarrow>
     (\<exists>pre w post. t = pre @ w @ post \<and> same_letters name w
        \<and> \<not> (pre \<noteq> [] \<and> py_isword U (last pre))
        \<and> \<not> (post \<noteq> [] \<and> py_isword U (hd post)))"

text \<open>The markers of the reply that the renderer looks for first.\<close>

definition no_markers :: "pystr \<Rightarrow> bool" where
  "no_markers content \<longleftrightarrow>
     \<not> contains (bsl ''textbf{'' @ bsl ''Huge '' @ bsl ''scshape '') content
     \<and> \<not> contains (bsl ''small '') content
     \<and> \<not> contains (bsl ''section{'') content"

section \<open>Concrete inputs\<close>

text \<open>No character above U+007F counts as alphanumeric.\<close>

definition ascii_only :: "nat \<Rightarrow> bool" where
  "ascii_only c = False"

text \<open>
  A reply in the layout of the template (one header, one section with one sub-heading
  and one item), and a run with everything in place: both folders, one resume of one
  page, a job description, a credential, a remote service that replies, a compiler that
  succeeds and leaves the files as they are.
\<close>

definition example_reply :: pystr where
  "example_reply =
     bsl ''begin{document}'' @ nl
     @ bsl ''textbf{'' @ bsl ''Huge '' @ bsl ''scshape Jane Doe}'' @ nl
     @ bsl ''small jane@x.com'' @ nl
     @ bsl ''section{Experience}'' @ nl
     @ bsl ''resumeSubheading'' @ nl
     @ str ''{Acme}{Remote}'' @ nl
     @ str ''{Engineer}{2020}'' @ nl
     @ bsl ''resumeItem{Did a thing well}'' @ nl
     @ bsl ''end{document}'' @ nl"

definition example_world :: world where
  "example_world =
     \<lparr> dirs = {str ''resume'', str ''newresume''},
       files = [str ''job_description.txt'' \<mapsto> Bytes (str ''Python developer'')],
       resume_pdfs = [str ''cv.pdf''],
       may_mkdir = True,
       writable = (\<lambda>p. True),
       environ = [str ''GEMINI_API_KEY'' \<mapsto> str ''secret''],
       pdf_pages = (\<lambda>p. Some [str ''Jane Doe'']),
       remote = (\<lambda>prompt. Some example_reply),
       requests = [],
       compiler = (\<lambda>fs d p. (Inr (0, []), fs)),
       console = [] \<rparr>"

text \<open>The same run with a job description that is the single byte FF.\<close>

definition job_description_not_utf8 :: world where
  "job_description_not_utf8 =
     example_world\<lparr>files := [str ''job_description.txt'' \<mapsto> Bytes [255]]\<rparr>"


section \<open>Lemmas\<close>

text \<open>The definitions that evaluate a pattern on a text.\<close>

lemmas ev = str_def nl_def bsl_def py_isspace_def search_def prev_after_def is_word_at_def
  first_of_def no_caps_def skip_def grp_def grp0_def strip_def match_here_def group_def push_def

text \<open>A pattern that starts with a literal matches only where the literal is.\<close>

lemma first_lits_None:
  "\<not> (\<exists>r. rest = s @ r) \<Longrightarrow> first (lits s @ rs) (St prev rest opened c) = None"
proof (induction s arbitrary: prev rest opened)
  case Nil
  then show ?case by simp
next
  case (Cons a s)
  show ?case
  proof (cases rest)
    case Nil
    then show ?thesis by (simp add: lits_def)
  next
    case (Cons x xs)
    show ?thesis
    proof (cases "x = a")
      case True
      with Cons Cons.prems have "\<not> (\<exists>r. xs = s @ r)" by simp
      then have "first (lits s @ rs) (St (Some x) xs (push x opened) c) = None"
        by (rule Cons.IH)
      then show ?thesis using Cons True by (simp add: lits_def)
    next
      case False
      then show ?thesis using Cons by (simp add: lits_def)
    qed
  qed
qed

lemma match_here_lits_None:
  "\<not> (\<exists>r. t = s @ r) \<Longrightarrow> match_here (lits s @ rs) prev t = None"
proof -
  assume a: "\<not> (\<exists>r. t = s @ r)"
  have "first (lits s @ (rs @ [Close 0])) (St prev t [(0, [])] no_caps) = None"
    using a by (rule first_lits_None)
  then show ?thesis by (simp add: match_here_def group_def)
qed

lemma contains_prefix: "contains s (s @ r)"
proof (cases "s @ r")
  case Nil
  then show ?thesis by simp
next
  case (Cons a l)
  have "take (length s) (s @ r) = s" by simp
  then show ?thesis using Cons by (metis contains.simps(2))
qed

lemma search_from_lits_None:
  "\<not> contains s t \<Longrightarrow> search_from (lits s @ rs) prev t = None"
proof (induction t arbitrary: prev)
  case Nil
  then have "\<not> (\<exists>r. [] = s @ r)" by simp
  then have "match_here (lits s @ rs) prev [] = None" by (rule match_here_lits_None)
  then show ?case by simp
next
  case (Cons x xs)
  have "\<not> (\<exists>r. x # xs = s @ r)"
    using Cons.prems contains_prefix by metis
  then have m: "match_here (lits s @ rs) prev (x # xs) = None" by (rule match_here_lits_None)
  have "\<not> contains s xs" using Cons.prems by simp
  then have "search_from (lits s @ rs) (Some x) xs = None" by (rule Cons.IH)
  with m show ?case by simp
qed

lemma search_lits_None: "\<not> contains s t \<Longrightarrow> search (lits s @ rs) t = None"
  by (simp add: search_def search_from_lits_None)

lemma finditer_lits_Nil: "\<not> contains s t \<Longrightarrow> finditer (lits s @ rs) t = []"
  by (simp add: finditer_def finditer_from.simps search_from_lits_None)

text \<open>The renderer on a reply without markers: the placeholders and no section.\<close>

lemma doc_name_placeholder:
  "\<not> contains (bsl ''textbf{'' @ bsl ''Huge '' @ bsl ''scshape '') content
   \<Longrightarrow> doc_name content = str ''Name''"
  by (simp add: doc_name_def doc_name_rx_def search_lits_None)

lemma doc_contact_empty:
  "\<not> contains (bsl ''small '') content \<Longrightarrow> doc_contact content = []"
proof -
  assume "\<not> contains (bsl ''small '') content"
  then have "search contact_rx content = None"
    by (simp add: contact_rx_def search_lits_None)
  moreover have "\<not> contains (bsl ''href{'') []"
    by (simp add: bsl_def)
  then have "finditer href_rx [] = []"
    unfolding href_rx_def append_assoc by (rule finditer_lits_Nil)
  ultimately show ?thesis
    by (simp add: doc_contact_def sub_g1_def replace.simps)
qed

lemma no_sections:
  "\<not> contains (bsl ''section{'') content \<Longrightarrow> finditer section_pattern content = []"
  unfolding section_pattern_def append_assoc by (rule finditer_lits_Nil)

lemma render_no_markers:
  "no_markers content \<Longrightarrow> render content = page_setup @ header_ops (str ''Name'') []"
  by (simp add: no_markers_def render_def doc_name_placeholder doc_contact_empty no_sections)

lemma create_pdf_resume_cases:
  "fst (create_pdf_resume w content p) = None
   \<or> (fst (create_pdf_resume w content p) = Some p
       \<and> files (snd (create_pdf_resume w content p)) p = Some (Pdf (render content)))"
  by (auto simp: create_pdf_resume_def create_pdf_resume_body_def pdf_output_def write_text_def
      split: prod.splits sum.splits if_splits)

lemma foldl_pages:
  "foldl (\<lambda>text page. text @ page @ nl) acc pages = acc @ concat (map (\<lambda>t. t @ nl) pages)"
  by (induction pages arbitrary: acc) simp_all

lemma build_prompt_raises:
  "build_prompt api_key resume_text resume_structure job_description additional_details
   = Inl (NameError (str ''document''))"
  by (simp add: build_prompt_def prompt_parts_def prompt_scope_def str_def Let_def)

section \<open>The claims\<close>

text \<open>
  C1. The renderer never raises: for every reply its result is absence or the path it
  was given, and in the second case the file at that path holds the document drawn from
  the reply. (The result type has no exception: the handler of line 458 turns every
  error of the body into absence.) For a reply with none of the markers the document
  drawn is the page set-up and the header with the name \<^verbatim>\<open>Name\<close> and an empty contact
  line, and no section row.
\<close>

theorem create_pdf_resume_never_raises:
  "(fst (create_pdf_resume w content p) = None
    \<or> (fst (create_pdf_resume w content p) = Some p
        \<and> files (snd (create_pdf_resume w content p)) p = Some (Pdf (render content))))
   \<and> (no_markers content \<longrightarrow> render content = page_setup @ header_ops (str ''Name'') [])"
  using create_pdf_resume_cases [of w content p] render_no_markers [of content] by blast

theorem create_pdf_resume_never_raises_witness:
  "no_markers (str ''I cannot help with that.'')
   \<and> fst (create_pdf_resume example_world (str ''I cannot help with that.'')
            (str ''newresume/optimized_cv.pdf''))
       = Some (str ''newresume/optimized_cv.pdf'')
   \<and> render (str ''I cannot help with that.'') = page_setup @ header_ops (str ''Name'') []"
proof -
  define content where "content = str ''I cannot help with that.''"
  have n: "no_markers content"
    by (simp add: content_def no_markers_def str_def bsl_def)
  have r: "render content = page_setup @ header_ops (str ''Name'') []"
    using create_pdf_resume_never_raises [of example_world content "str ''newresume/optimized_cv.pdf''"] n
    by blast
  have e: "utf8_encodable content"
    by (simp add: content_def utf8_encodable_def str_def)
  have "fst (create_pdf_resume example_world content (str ''newresume/optimized_cv.pdf''))
       = Some (str ''newresume/optimized_cv.pdf'')"
    by (simp add: create_pdf_resume_def create_pdf_resume_body_def r e pdf_output_def write_text_def
        example_world_def page_setup_def header_ops_def latin1_def str_def)
  with n r show ?thesis
    unfolding content_def by blast
qed

text \<open>
  C2. A run of \<open>main\<close> does not always end with status 0. With everything else in place
  and a job description that is not UTF-8 (the single byte FF), the read of lines 60
  and 61 raises \<^verbatim>\<open>UnicodeDecodeError\<close>; nothing catches it, and it leaves \<open>main\<close>. The
  read of the additional details, at lines 40 to 49, has the handler that this one lacks.
\<close>

theorem main_raises_on_job_description:
  "fst (main U job_description_not_utf8) = Some UnicodeDecodeError
   \<and> exit_status (main U job_description_not_utf8) = 1"
  by (simp add: main_def lines_53_94_def lines_36_51_def job_description_not_utf8_def
      example_world_def path_exists_def extract_from_pdf_def read_text_utf8_def say_def
      exit_status_def str_def nl_def Let_def)

text \<open>
  C3. The text \<^verbatim>\<open>a\n\t\tb\<close> has a line break followed by a tab and no line break followed
  by two spaces, and the analyzer reports \<^verbatim>\<open>spaces\<close>: the class \<^verbatim>\<open>\s\<close> of line 140 is
  every white-space character, the tab and the line break among them.
\<close>

theorem indentation_style_two_tabs:
  "indentation_style (analyze_resume_structure U (str ''a'' @ nl @ [9, 9] @ str ''b''))
     = str ''spaces''
   \<and> \<not> contains [10, 32, 32] (str ''a'' @ nl @ [9, 9] @ str ''b'')
   \<and> contains [10, 9] (str ''a'' @ nl @ [9, 9] @ str ''b'')"
  by (simp add: analyze_resume_structure_def indent_spaces_rx_def ev)



text \<open>
  C8, as amended. The text that the extractor returns is every page text followed by a
  line break, the last page included: the line break ends each page, it does not
  separate two pages.
\<close>

theorem extract_from_pdf_text:
  "pdf_pages w pdf_path = Some pages \<Longrightarrow>
   map_option fst (fst (extract_from_pdf U w pdf_path)) = Some (concat (map (\<lambda>t. t @ nl) pages))"
  by (simp add: extract_from_pdf_def foldl_pages Let_def)

theorem extract_from_pdf_text_witness:
  "pdf_pages example_world (str ''resume/cv.pdf'') = Some [str ''Jane Doe'']
   \<and> map_option fst (fst (extract_from_pdf ascii_only example_world (str ''resume/cv.pdf'')))
       = Some (str ''Jane Doe'' @ nl)"
proof -
  have p: "pdf_pages example_world (str ''resume/cv.pdf'') = Some [str ''Jane Doe'']"
    by (simp add: example_world_def)
  show ?thesis
    using extract_from_pdf_text [OF p, of ascii_only] p by simp
qed

text \<open>
  C8, as stated, fails on a PDF of one page: the text returned is not the page texts
  joined by line breaks, it has a line break after the page.
\<close>

theorem extract_from_pdf_not_separator:
  "map_option fst (fst (extract_from_pdf ascii_only example_world (str ''resume/cv.pdf'')))
     \<noteq> Some (join nl [str ''Jane Doe''])"
  by (simp add: extract_from_pdf_def example_world_def Let_def nl_def)

text \<open>
  C9. The Prompt Builder assembles no instruction: the replacement field \<^verbatim>\<open>{document}\<close>
  of line 199 names a variable that is not bound, and the f-string raises \<^verbatim>\<open>NameError\<close>
  for every input (\<open>build_prompt_raises\<close>), here for a resume of one line.
\<close>

theorem prompt_builder_raises:
  "build_prompt (str ''secret'') (str ''Jane Doe'')
     (analyze_resume_structure ascii_only (str ''Jane Doe'')) (str ''Python developer'') []
   = Inl (NameError (str ''document''))"
  by (rule build_prompt_raises)


end
